theory Spec2Isabelle
  imports Complex_Main
begin

section \<open>Python values used by the backend\<close>

text \<open>
  A Python string is modelled by the list of the bytes of its UTF-8 encoding, so a
  character of ASCII is one \<open>char\<close> and never part of the encoding of another
  character. The operations of \<open>str\<close> that rest on the Unicode tables of the interpreter
  (\<open>lower\<close>, \<open>title\<close>, \<open>strip\<close>) are defined here on the strings of ASCII, where no table
  is needed; on every other string, and for the formatting of a float, they are fields of
  the world below, and every property is proved for every world.

  The handlers of \<open>analyze_tennis_video\<close> tell exactly four classes of exception apart,
  in this order: \<open>FileNotFoundError\<close>, \<open>RuntimeError\<close>, \<open>anthropic.APIError\<close> and
  \<open>Exception\<close>. \<open>OtherException\<close> stands for every exception that is in none of the first
  three classes (\<open>IndexError\<close>, \<open>KeyError\<close>, \<open>ValueError\<close>, \<open>ZeroDivisionError\<close>,
  \<open>subprocess.TimeoutExpired\<close>, ...). The argument is \<open>str(e)\<close>.
\<close>

datatype exn =
    FileNotFoundError string
  | RuntimeError string
  | APIError string
  | OtherException string

section \<open>The world outside the repository\<close>

text \<open>
  What \<open>ffprobe\<close> gives for a path, seen through \<open>get_video_duration\<close>:
  \<^item> \<open>Spawn_error e\<close>: \<open>subprocess.run\<close> raised \<open>e\<close> (a missing binary raises
    \<open>FileNotFoundError\<close>);
  \<^item> \<open>No_duration m\<close>: the output is not JSON, or has no \<open>format.duration\<close> that
    \<open>float\<close> accepts; \<open>m\<close> is the text of the \<open>JSONDecodeError\<close>, \<open>KeyError\<close>,
    \<open>TypeError\<close> or \<open>ValueError\<close> that is raised. The exit status of the tool is not read;
  \<^item> \<open>Seconds d\<close>: the duration, the real number that the float is.
\<close>

datatype probe = Spawn_error exn | No_duration string | Seconds real

text \<open>
  The parts of the \<open>ffmpeg\<close> command line that vary: the input path, the number that
  \<open>{interval:.2f}\<close> writes after \<open>fps=1/\<close>, and the argument of \<open>-vframes\<close>.
\<close>

record ffmpeg_cmd =
  cmd_input :: string
  cmd_interval :: real
  cmd_vframes :: int

text \<open>
  A run of \<open>ffmpeg\<close> either raises (the 60 second timeout, a missing binary) or completes
  with a return code, its standard error, and the contents of the \<open>frame_*.jpg\<close> files
  it left in the temporary directory, sorted by name.
\<close>

datatype ffmpeg_result = Run_raised exn | Completed int string "string list"

record image_source =
  source_type :: string
  media_type :: string
  data :: string

datatype content_block = Image_block image_source | Text_block string

datatype save_result = Saved | Save_raised exn "string option"

text \<open>
  The world around the program.

  Built-ins of Python: \<open>str_lower w\<close>, \<open>str_title w\<close> and \<open>str_strip w\<close> are
  \<open>str.lower\<close>, \<open>str.title\<close> and \<open>str.strip\<close> on the strings that hold a character
  outside ASCII (they are not consulted on the others); \<open>int_of_str w\<close> is \<open>int\<close> on a
  string (\<open>None\<close> where it raises \<open>ValueError\<close>); \<open>path_str w p\<close> is \<open>str(Path(p))\<close>.
  \<open>format_2f w x\<close> is the number denoted by the text that \<open>{interval:.2f}\<close> writes when
  \<open>interval\<close> is the float quotient whose exact value is \<open>x\<close>: the division and the
  formatting are done in binary floating point, and the world says what they print.

  Collaborators: \<open>path_exists\<close>, \<open>ffprobe\<close> and \<open>ffmpeg\<close> are the file system and the media
  tools as the pipeline sees them. \<open>messages_create w key content\<close> stands for building
  the client with \<open>key\<close>, calling \<open>client.messages.create\<close> with the fixed model,
  \<open>max_tokens\<close> and \<open>SYSTEM_PROMPT\<close> and one user message holding \<open>content\<close>, and reading
  \<open>response.content[0].text\<close>; an exception raised anywhere on the way is the left
  summand. \<open>environ_api_key\<close> is the variable \<open>ANTHROPIC_API_KEY\<close> of the environment.

  Used by app.py: \<open>UPLOAD_FOLDER\<close> is the scratch directory, \<open>uuid4_hex\<close> the random
  prefix drawn for the request, \<open>secure_filename\<close> the function of that name, and
  \<open>file_save w path\<close> the outcome of \<open>video_file.save\<close>.

  The media tools are not tied to the scratch storage that app.py writes, so a world may
  lose a file between the save and the probe. Removing a file never fails.
\<close>

record world =
  str_lower :: "string \<Rightarrow> string"
  str_title :: "string \<Rightarrow> string"
  str_strip :: "string \<Rightarrow> string"
  int_of_str :: "string \<Rightarrow> int option"
  format_2f :: "real \<Rightarrow> real"
  path_str :: "string \<Rightarrow> string"
  path_exists :: "string \<Rightarrow> bool"
  ffprobe :: "string \<Rightarrow> probe"
  ffmpeg :: "ffmpeg_cmd \<Rightarrow> ffmpeg_result"
  standard_b64encode :: "string \<Rightarrow> string"
  environ_api_key :: "string option"
  messages_create :: "string option \<Rightarrow> content_block list \<Rightarrow> exn + string"
  UPLOAD_FOLDER :: string
  uuid4_hex :: string
  secure_filename :: "string \<Rightarrow> string"
  file_save :: "string \<Rightarrow> save_result"

section \<open>Operations on strings\<close>

text \<open>
  \<open>s.rsplit(sep, 1)\<close> for a one-character separator: the string is cut at the last
  occurrence of \<open>sep\<close>; without an occurrence the result is the one-element list \<open>[s]\<close>.
\<close>

fun rsplit1 :: "char \<Rightarrow> string \<Rightarrow> string list" where
  "rsplit1 sep [] = [[]]"
| "rsplit1 sep (c # cs) =
     (case rsplit1 sep cs of
        [a, b] \<Rightarrow> [c # a, b]
      | _ \<Rightarrow> if c = sep then [[], cs] else [c # cs])"

text \<open>\<open>xs[1]\<close>, which raises \<open>IndexError\<close> on a list shorter than two.\<close>

definition index1 :: "'a list \<Rightarrow> exn + 'a" where
  "index1 xs =
     (case xs of
        _ # y # _ \<Rightarrow> Inr y
      | _ \<Rightarrow> Inl (OtherException ''list index out of range''))"

text \<open>\<open>s.replace(a, b)\<close> for one-character strings \<open>a\<close> and \<open>b\<close> of ASCII.\<close>

definition replace_char :: "char \<Rightarrow> char \<Rightarrow> string \<Rightarrow> string" where
  "replace_char a b s = map (\<lambda>c. if c = a then b else c) s"

definition digit_char :: "nat \<Rightarrow> char" where
  "digit_char d = ''0123456789'' ! d"

text \<open>\<open>str(n)\<close> for an integer: decimal digits, with a minus sign when negative.\<close>

function str_nat :: "nat \<Rightarrow> string" where
  "str_nat n = (if n < 10 then [digit_char n] else str_nat (n div 10) @ [digit_char (n mod 10)])"
  by pat_completeness auto
termination
  by (relation "measure (\<lambda>n. n)") auto

declare str_nat.simps [simp del]

definition str_int :: "int \<Rightarrow> string" where
  "str_int i = (if i < 0 then ''-'' @ str_nat (nat (- i)) else str_nat (nat i))"

text \<open>
  \<open>s[:n]\<close>: the first \<open>n\<close> characters. A character is a byte that starts an encoding
  together with the continuation bytes (\<open>0x80\<close> to \<open>0xBF\<close>) that follow it.
\<close>

fun is_continuation :: "char \<Rightarrow> bool" where
  "is_continuation (Char b0 b1 b2 b3 b4 b5 b6 b7) = (b7 \<and> \<not> b6)"

fun slice_to :: "nat \<Rightarrow> string \<Rightarrow> string" where
  "slice_to 0 s = []"
| "slice_to (Suc n) [] = []"
| "slice_to (Suc n) (c # cs) =
     c # takeWhile is_continuation cs @ slice_to n (dropWhile is_continuation cs)"

text \<open>
  \<open>s.isascii()\<close>: every character of the string is a character of ASCII, a byte below
  \<open>0x80\<close>.
\<close>

fun ascii_char :: "char \<Rightarrow> bool" where
  "ascii_char (Char b0 b1 b2 b3 b4 b5 b6 b7) = (\<not> b7)"

definition isascii :: "string \<Rightarrow> bool" where
  "isascii s = list_all ascii_char s"

text \<open>
  The case conversions and classes of the characters of ASCII: only the twenty-six letters
  are cased, and the white space is the tab, the line feed, the vertical tab, the form
  feed, the carriage return, the four separators \<open>0x1C\<close> to \<open>0x1F\<close> and the space.
\<close>

definition lower_char :: "char \<Rightarrow> char" where
  "lower_char c =
     (case map_of (zip ''ABCDEFGHIJKLMNOPQRSTUVWXYZ'' ''abcdefghijklmnopqrstuvwxyz'') c of
        Some d \<Rightarrow> d
      | None \<Rightarrow> c)"

definition upper_char :: "char \<Rightarrow> char" where
  "upper_char c =
     (case map_of (zip ''abcdefghijklmnopqrstuvwxyz'' ''ABCDEFGHIJKLMNOPQRSTUVWXYZ'') c of
        Some d \<Rightarrow> d
      | None \<Rightarrow> c)"

definition islower :: "char \<Rightarrow> bool" where
  "islower c = (c \<in> set ''abcdefghijklmnopqrstuvwxyz'')"

definition isupper :: "char \<Rightarrow> bool" where
  "isupper c = (c \<in> set ''ABCDEFGHIJKLMNOPQRSTUVWXYZ'')"

definition isspace :: "char \<Rightarrow> bool" where
  "isspace c = (c \<in> set [CHR 0x09, CHR 0x0A, CHR 0x0B, CHR 0x0C, CHR 0x0D,
                           CHR 0x1C, CHR 0x1D, CHR 0x1E, CHR 0x1F, CHR 0x20])"

text \<open>
  \<open>s.lower()\<close>. On a string of ASCII it lower-cases the letters \<open>A\<close> to \<open>Z\<close>; on any
  other string the tables of the interpreter decide (\<open>str_lower\<close>).
\<close>

definition lower :: "world \<Rightarrow> string \<Rightarrow> string" where
  "lower w s = (if isascii s then map lower_char s else str_lower w s)"

text \<open>
  \<open>s.title()\<close>. A cased character is upper-cased when the character before it is not
  cased (or there is none) and lower-cased otherwise. The flag of \<open>title_from\<close> says
  whether the previous character was cased.
\<close>

fun title_from :: "bool \<Rightarrow> string \<Rightarrow> string" where
  "title_from prev [] = []"
| "title_from prev (c # cs) =
     (if islower c then (if prev then c else upper_char c) # title_from True cs
      else if isupper c then (if prev then lower_char c else c) # title_from True cs
      else c # title_from False cs)"

definition title :: "world \<Rightarrow> string \<Rightarrow> string" where
  "title w s = (if isascii s then title_from False s else str_title w s)"

text \<open>\<open>s.strip()\<close>: the string without the white space at its two ends.\<close>

definition strip :: "world \<Rightarrow> string \<Rightarrow> string" where
  "strip w s =
     (if isascii s then rev (dropWhile isspace (rev (dropWhile isspace s)))
      else str_strip w s)"

section \<open>app.py: the extension allow-list\<close>

definition ALLOWED_EXTENSIONS :: "string set" where
  "ALLOWED_EXTENSIONS = {''mp4'', ''mov'', ''avi'', ''mkv'', ''m4v'', ''webm''}"

text \<open>
  \<open>'.' in filename and filename.rsplit('.', 1)[1].lower() in ALLOWED_EXTENSIONS\<close>;
  \<open>and\<close> does not evaluate its right operand when the left one is false.
\<close>

definition allowed_file :: "world \<Rightarrow> string \<Rightarrow> exn + bool" where
  "allowed_file w filename =
     (if CHR ''.'' \<in> set filename
      then (case index1 (rsplit1 (CHR ''.'') filename) of
              Inl e \<Rightarrow> Inl e
            | Inr ext \<Rightarrow> Inr (lower w ext \<in> ALLOWED_EXTENSIONS))
      else Inr False)"

text \<open>
  The wording of the specification, for comparison with \<open>allowed_file\<close>: the substring
  after the last dot of a file name.
\<close>

definition after_last_dot :: "string \<Rightarrow> string" where
  "after_last_dot s = rev (takeWhile (\<lambda>c. c \<noteq> CHR ''.'') (rev s))"

section \<open>coaching\_prompt.py\<close>

text \<open>
  The per-stroke instruction fragments of \<open>STROKE_CONTEXT\<close>. A character of the source
  outside ASCII (the dash and the arrow) is written as the bytes of its UTF-8 encoding.
\<close>

definition STROKE_forehand :: string where
  "STROKE_forehand =
     ''\<newline>'' @
     ''Focus especially on:\<newline>'' @
     ''- Grip type (Eastern, Semi-Western, Western) and whether it matches the swing path\<newline>'' @
     ''- Eastern players: watch for late contact and arm-dominant swings\<newline>'' @
     ''- Western players: watch for over-rotation and loss of court depth\<newline>'' @
     ''- The windshield wiper finish vs. abbreviated follow-through\<newline>''"

definition STROKE_backhand_one_handed :: string where
  "STROKE_backhand_one_handed =
     ''\<newline>'' @
     ''Focus especially on:\<newline>'' @
     ''- Shoulder turn is CRITICAL '' @
     [CHR 0xE2, CHR 0x80, CHR 0x94] @
     '' one-handers require more rotation than two-handers\<newline>'' @
     ''- Contact point must be further in front than a two-hander\<newline>'' @
     ''- Wrist stability at contact '' @
     [CHR 0xE2, CHR 0x80, CHR 0x94] @
     '' the most common breakdown point\<newline>'' @
     ''- Slice vs. topspin mechanics differ significantly; identify which is being attempted\<newline>''"

definition STROKE_backhand_two_handed :: string where
  "STROKE_backhand_two_handed =
     ''\<newline>'' @
     ''Focus especially on:\<newline>'' @
     ''- Non-dominant arm driving the shot (most students rely too much on dominant arm)\<newline>'' @
     ''- Hip clearance '' @
     [CHR 0xE2, CHR 0x80, CHR 0x94] @
     '' hips must rotate out of the way on open-stance backhands\<newline>'' @
     ''- Contact point height '' @
     [CHR 0xE2, CHR 0x80, CHR 0x94] @
     '' two-handers excel at shoulder height, struggle below the knee\<newline>''"

definition STROKE_serve :: string where
  "STROKE_serve =
     ''\<newline>'' @
     ''Focus especially on:\<newline>'' @
     ''- Toss consistency is the #1 serve problem at all levels\<newline>'' @
     ''- The kinetic chain: legs '' @
     [CHR 0xE2, CHR 0x86, CHR 0x92] @
     '' hips '' @
     [CHR 0xE2, CHR 0x86, CHR 0x92] @
     '' torso '' @
     [CHR 0xE2, CHR 0x86, CHR 0x92] @
     '' shoulder '' @
     [CHR 0xE2, CHR 0x86, CHR 0x92] @
     '' elbow '' @
     [CHR 0xE2, CHR 0x86, CHR 0x92] @
     '' wrist\<newline>'' @
     ''- Are they hitting with arm only, or using their legs?\<newline>'' @
     ''- Second serve: look for excessive caution vs. committed swing\<newline>''"

definition STROKE_volley :: string where
  "STROKE_volley =
     ''\<newline>'' @
     ''Focus especially on:\<newline>'' @
     ''- Compact backswing '' @
     [CHR 0xE2, CHR 0x80, CHR 0x94] @
     '' volleys are BLOCKS, not swings\<newline>'' @
     ''- Continental grip '' @
     [CHR 0xE2, CHR 0x80, CHR 0x94] @
     '' Eastern grip is the most common volley error\<newline>'' @
     ''- Ready position and split step timing at the net\<newline>'' @
     ''- Head stability through contact\<newline>''"

definition STROKE_general :: string where
  "STROKE_general =
     ''\<newline>'' @
     ''Analyze whatever strokes are most visible in the provided frames.\<newline>'' @
     ''If multiple strokes are shown, prioritize the one with the clearest \<newline>'' @
     ''mechanical issue or the one most central to the student's game.\<newline>''"

definition STROKE_CONTEXT :: "string \<rightharpoonup> string" where
  "STROKE_CONTEXT =
     map_of [
       (''forehand'', STROKE_forehand),
       (''backhand_one_handed'', STROKE_backhand_one_handed),
       (''backhand_two_handed'', STROKE_backhand_two_handed),
       (''serve'', STROKE_serve),
       (''volley'', STROKE_volley),
       (''general'', STROKE_general)]"

text \<open>\<open>d[k]\<close>, which raises \<open>KeyError\<close> (whose text is the quoted key) on a missing key.\<close>

definition getitem :: "(string \<rightharpoonup> 'v) \<Rightarrow> string \<Rightarrow> exn + 'v" where
  "getitem d k =
     (case d k of
        Some v \<Rightarrow> Inr v
      | None \<Rightarrow> Inl (OtherException ([CHR 0x27] @ k @ [CHR 0x27])))"

text \<open>
  The student context: a dict whose keys are among \<open>name\<close>, \<open>level\<close>, \<open>age\<close> and
  \<open>concerns\<close>, every one of them optional. A key that is absent is \<open>None\<close> here. The dict
  is truthy when it has at least one key.
\<close>

record student_info =
  info_name :: "string option"
  info_level :: "string option"
  info_age :: "int option"
  info_concerns :: "string option"

definition truthy_info :: "student_info option \<Rightarrow> bool" where
  "truthy_info si =
     (case si of
        None \<Rightarrow> False
      | Some d \<Rightarrow> info_name d \<noteq> None \<or> info_level d \<noteq> None
                 \<or> info_age d \<noteq> None \<or> info_concerns d \<noteq> None)"

text \<open>
  The profile block of the user prompt. \<open>age\<close> is shown when it is present and not zero,
  \<open>concerns\<close> when present and not empty; each leaves its line empty otherwise.
\<close>

definition student_context :: "student_info option \<Rightarrow> string" where
  "student_context si =
     (case si of
        None \<Rightarrow> []
      | Some d \<Rightarrow>
          if truthy_info si then
            (let name = (case info_name d of Some n \<Rightarrow> n | None \<Rightarrow> ''the student'');
                 level = (case info_level d of Some l \<Rightarrow> l | None \<Rightarrow> ''intermediate'');
                 age_line = (case info_age d of
                               Some a \<Rightarrow> if a \<noteq> 0 then ''- Age: '' @ str_int a else []
                             | None \<Rightarrow> []);
                 concerns_line = (case info_concerns d of
                               Some c \<Rightarrow> if c \<noteq> [] then ''- Student notes: '' @ c else []
                             | None \<Rightarrow> [])
             in ''\<newline>STUDENT PROFILE:\<newline>- Name: '' @ name @
                ''\<newline>- Level: '' @ level @ ''\<newline>'' @
                age_line @ ''\<newline>'' @ concerns_line @ ''\<newline>\<newline>'')
          else [])"

text \<open>
  The template of the prompt that \<open>build_user_prompt\<close> returns, with its four
  interpolations: the profile block, the number of frames, the stroke type (underscores
  replaced by spaces, then title-cased) and the instruction fragment.
\<close>

definition prompt_template :: "world \<Rightarrow> string \<Rightarrow> nat \<Rightarrow> string \<Rightarrow> string \<Rightarrow> string" where
  "prompt_template w context frames_count stroke_type stroke_addition =
     context @
     ''I'm sending you '' @ str_nat frames_count @
     '' frames extracted from a tennis video.\<newline>'' @
     ''Please analyze the stroke mechanics shown across these frames.\<newline>'' @
     ''\<newline>'' @
     ''Stroke type: '' @ title w (replace_char (CHR ''_'') (CHR '' '') stroke_type) @
     ''\<newline>\<newline>'' @
     stroke_addition @
     ''\<newline>\<newline>'' @
     ''Provide your full structured analysis following the format in your instructions.''"

text \<open>
  \<open>build_user_prompt\<close>. The default of the lookup, \<open>STROKE_CONTEXT["general"]\<close>, is
  evaluated before \<open>get\<close> is called.
\<close>

definition build_user_prompt :: "world \<Rightarrow> nat \<Rightarrow> string \<Rightarrow> student_info option \<Rightarrow> exn + string" where
  "build_user_prompt w frames_count stroke_type si =
     (case getitem STROKE_CONTEXT ''general'' of
        Inl e \<Rightarrow> Inl e
      | Inr dflt \<Rightarrow>
          (let stroke_addition = (case STROKE_CONTEXT stroke_type of Some v \<Rightarrow> v | None \<Rightarrow> dflt)
           in Inr (prompt_template w (student_context si) frames_count stroke_type stroke_addition)))"

section \<open>analysis\_pipeline.py\<close>

definition FRAMES_TO_EXTRACT :: int where
  "FRAMES_TO_EXTRACT = 10"

definition MAX_VIDEO_DURATION :: real where
  "MAX_VIDEO_DURATION = 120"

subsection \<open>Frame extraction\<close>

definition get_video_duration :: "world \<Rightarrow> string \<Rightarrow> exn + real" where
  "get_video_duration w video_path =
     (case ffprobe w video_path of
        Spawn_error e \<Rightarrow> Inl e
      | No_duration m \<Rightarrow> Inl (OtherException m)
      | Seconds d \<Rightarrow> Inr d)"

text \<open>
  The first half of \<open>extract_frames\<close>, up to the command line: the existence check, the
  probe, the cap on the duration and the interval. Dividing by a frame count of zero
  raises \<open>ZeroDivisionError\<close>.
\<close>

definition ffmpeg_command :: "world \<Rightarrow> string \<Rightarrow> int \<Rightarrow> exn + ffmpeg_cmd" where
  "ffmpeg_command w video_path0 num_frames =
     (let video_path = path_str w video_path0 in
      if \<not> path_exists w video_path
      then Inl (FileNotFoundError (''Video not found: '' @ video_path))
      else
        (case get_video_duration w video_path of
           Inl e \<Rightarrow> Inl e
         | Inr duration0 \<Rightarrow>
             (let capped = (MAX_VIDEO_DURATION < duration0);
                  duration = (if capped then MAX_VIDEO_DURATION else duration0)
              in if num_frames = 0
                 then Inl (OtherException
                             (if capped then ''division by zero'' else ''float division by zero''))
                 else
                   (let interval = duration / of_int num_frames
                    in Inr \<lparr>cmd_input = video_path,
                             cmd_interval = format_2f w interval,
                             cmd_vframes = num_frames\<rparr>))))"

text \<open>The second half: the run of the tool and the encoding of the frames.\<close>

definition extract_frames :: "world \<Rightarrow> string \<Rightarrow> int \<Rightarrow> exn + string list" where
  "extract_frames w video_path num_frames =
     (case ffmpeg_command w video_path num_frames of
        Inl e \<Rightarrow> Inl e
      | Inr cmd \<Rightarrow>
          (case ffmpeg w cmd of
             Run_raised e \<Rightarrow> Inl e
           | Completed returncode stderr frame_files \<Rightarrow>
               if returncode \<noteq> 0
               then Inl (RuntimeError (''FFmpeg failed: '' @ stderr))
               else if frame_files = []
               then Inl (RuntimeError ''No frames were extracted. Check video format.'')
               else Inr (map (standard_b64encode w) frame_files)))"

subsection \<open>The request to the model\<close>

text \<open>The loop over \<open>enumerate(frames_b64)\<close>; \<open>i\<close> is the index of the first frame left.\<close>

fun frame_blocks :: "nat \<Rightarrow> string list \<Rightarrow> content_block list" where
  "frame_blocks i [] = []"
| "frame_blocks i (frame_b64 # rest) =
     Image_block \<lparr>source_type = ''base64'', media_type = ''image/jpeg'', data = frame_b64\<rparr>
     # Text_block (''[Frame '' @ str_nat (i + 1) @ '']'')
     # frame_blocks (Suc i) rest"

text \<open>The \<open>content\<close> list of the user message.\<close>

definition message_content ::
  "world \<Rightarrow> string list \<Rightarrow> string \<Rightarrow> student_info option \<Rightarrow> exn + content_block list"
  where
  "message_content w frames_b64 stroke_type si =
     (case build_user_prompt w (length frames_b64) stroke_type si of
        Inl e \<Rightarrow> Inl e
      | Inr user_prompt \<Rightarrow> Inr (frame_blocks 0 frames_b64 @ [Text_block user_prompt]))"

text \<open>\<open>api_key or os.environ.get("ANTHROPIC_API_KEY")\<close>: an empty key is falsy.\<close>

definition effective_key :: "world \<Rightarrow> string option \<Rightarrow> string option" where
  "effective_key w api_key =
     (case api_key of
        Some k \<Rightarrow> if k \<noteq> [] then Some k else environ_api_key w
      | None \<Rightarrow> environ_api_key w)"

definition analyze_frames_with_claude ::
  "world \<Rightarrow> string list \<Rightarrow> string \<Rightarrow> student_info option \<Rightarrow> string option \<Rightarrow> exn + string" where
  "analyze_frames_with_claude w frames_b64 stroke_type si api_key =
     (case message_content w frames_b64 stroke_type si of
        Inl e \<Rightarrow> Inl e
      | Inr content \<Rightarrow> messages_create w (effective_key w api_key) content)"

subsection \<open>The pipeline\<close>

datatype jval = JNull | JBool bool | JInt int | JStr string

type_synonym pydict = "string \<rightharpoonup> jval"

text \<open>The four \<open>except\<close> clauses of \<open>analyze_tennis_video\<close>, in their order.\<close>

definition failure_result :: "exn \<Rightarrow> pydict" where
  "failure_result e =
     (let msg = (case e of
                   FileNotFoundError m \<Rightarrow> ''Video file not found: '' @ m
                 | RuntimeError m \<Rightarrow> ''Processing error: '' @ m
                 | APIError m \<Rightarrow> ''Claude API error: '' @ m
                 | OtherException m \<Rightarrow> ''Unexpected error: '' @ m)
      in [''success'' \<mapsto> JBool False, ''error'' \<mapsto> JStr msg, ''analysis'' \<mapsto> JNull])"

text \<open>\<open>student_info.get("name", "Student") if student_info else "Student"\<close>.\<close>

definition student_name :: "student_info option \<Rightarrow> string" where
  "student_name si =
     (if truthy_info si
      then (case si of
              Some d \<Rightarrow> (case info_name d of Some n \<Rightarrow> n | None \<Rightarrow> ''Student'')
            | None \<Rightarrow> ''Student'')
      else ''Student'')"

definition analyze_tennis_video ::
  "world \<Rightarrow> string \<Rightarrow> string \<Rightarrow> student_info option \<Rightarrow> string option \<Rightarrow> pydict" where
  "analyze_tennis_video w video_path stroke_type si api_key =
     (case extract_frames w video_path FRAMES_TO_EXTRACT of
        Inl e \<Rightarrow> failure_result e
      | Inr frames \<Rightarrow>
          (case analyze_frames_with_claude w frames stroke_type si api_key of
             Inl e \<Rightarrow> failure_result e
           | Inr analysis \<Rightarrow>
               [''success'' \<mapsto> JBool True,
                ''analysis'' \<mapsto> JStr analysis,
                ''frames_analyzed'' \<mapsto> JInt (int (length frames)),
                ''stroke_type'' \<mapsto> JStr stroke_type,
                ''student_name'' \<mapsto> JStr (student_name si),
                ''error'' \<mapsto> JNull]))"

section \<open>app.py\<close>

definition MAX_CONTENT_LENGTH :: nat where
  "MAX_CONTENT_LENGTH = 500 * 1024 * 1024"

text \<open>
  A multipart request: its content length, the file of the \<open>video\<close> field when the field
  is present, and the text fields of the form.
\<close>

record upload =
  upload_filename :: string
  upload_payload :: string

record request =
  content_length :: nat
  files_video :: "upload option"
  form :: "string \<rightharpoonup> string"

text \<open>Scratch storage: the files that exist, by path, with their contents.\<close>

type_synonym scratch = "string \<rightharpoonup> string"

type_synonym response = "pydict \<times> nat"

text \<open>\<open>request.form.get(k)\<close> used as a condition: the field is present and not empty.\<close>

definition form_truthy :: "(string \<rightharpoonup> string) \<Rightarrow> string \<Rightarrow> bool" where
  "form_truthy f k = (case f k of Some v \<Rightarrow> v \<noteq> [] | None \<Rightarrow> False)"

text \<open>
  The student context built from the form. A \<open>ValueError\<close> of \<open>int\<close> is swallowed: the
  key \<open>age\<close> is then absent.
\<close>

definition build_student_info :: "world \<Rightarrow> (string \<rightharpoonup> string) \<Rightarrow> student_info" where
  "build_student_info w f =
     \<lparr>info_name = (if form_truthy f ''name''
                    then map_option (\<lambda>v. slice_to 50 (strip w v)) (f ''name'') else None),
      info_level = (if form_truthy f ''level'' then f ''level'' else None),
      info_age = (if form_truthy f ''age''
                   then (case f ''age'' of Some v \<Rightarrow> int_of_str w v | None \<Rightarrow> None) else None),
      info_concerns = (if form_truthy f ''concerns''
                        then map_option (\<lambda>v. slice_to 500 (strip w v)) (f ''concerns'') else None)\<rparr>"

definition error_body :: "string \<Rightarrow> pydict" where
  "error_body msg = [''success'' \<mapsto> JBool False, ''error'' \<mapsto> JStr msg]"

text \<open>The handlers registered for the statuses 413 and 500.\<close>

definition file_too_large :: response where
  "file_too_large = (error_body ''Video file is too large. Please keep it under 500MB.'', 413)"

definition internal_error :: response where
  "internal_error =
     (error_body ''An unexpected server error occurred. Please try again.'', 500)"

text \<open>\<open>str(e)\<close>.\<close>

definition exn_str :: "exn \<Rightarrow> string" where
  "exn_str e =
     (case e of
        FileNotFoundError m \<Rightarrow> m
      | RuntimeError m \<Rightarrow> m
      | APIError m \<Rightarrow> m
      | OtherException m \<Rightarrow> m)"

text \<open>Truthiness of a value, as \<open>if result['success']\<close> reads it.\<close>

definition truthy :: "jval \<Rightarrow> bool" where
  "truthy v =
     (case v of
        JNull \<Rightarrow> False
      | JBool b \<Rightarrow> b
      | JInt i \<Rightarrow> i \<noteq> 0
      | JStr s \<Rightarrow> s \<noteq> [])"

text \<open>The path under which the upload is stored.\<close>

definition upload_path :: "world \<Rightarrow> upload \<Rightarrow> string" where
  "upload_path w video_file =
     UPLOAD_FOLDER w @ ''/'' @ uuid4_hex w @ ''_'' @ secure_filename w (upload_filename video_file)"

text \<open>
  The call of the pipeline in the handler: on the stored upload, with the stroke type of the
  form (\<open>general\<close> when the field is absent), the student context built from the form
  (\<open>None\<close> when it is empty) and the key read from the environment.
\<close>

definition run_pipeline :: "world \<Rightarrow> request \<Rightarrow> upload \<Rightarrow> pydict" where
  "run_pipeline w req video_file =
     (let student_info = build_student_info w (form req);
          stroke_type = (case form req ''stroke_type'' of Some s \<Rightarrow> s | None \<Rightarrow> ''general'')
      in analyze_tennis_video w (upload_path w video_file) stroke_type
           (if truthy_info (Some student_info) then Some student_info else None)
           (environ_api_key w))"

text \<open>
  The \<open>try\<close> block with its \<open>except Exception\<close> clause: the response and scratch storage
  as they are when the \<open>finally\<close> clause starts. A \<open>save\<close> that raises may leave a file
  behind (\<open>Save_raised e (Some partial)\<close>).
\<close>

definition save_and_run ::
  "world \<Rightarrow> request \<Rightarrow> upload \<Rightarrow> scratch \<Rightarrow> response \<times> scratch" where
  "save_and_run w req video_file fs =
     (let video_path = upload_path w video_file
      in case file_save w video_path of
           Save_raised e left \<Rightarrow>
             ((error_body (''Server error: '' @ exn_str e), 500),
              (case left of None \<Rightarrow> fs | Some partial \<Rightarrow> fs(video_path \<mapsto> partial)))
         | Saved \<Rightarrow>
             (let fs1 = fs(video_path \<mapsto> upload_payload video_file);
                  result = run_pipeline w req video_file
              in case getitem result ''success'' of
                   Inl e \<Rightarrow> ((error_body (''Server error: '' @ exn_str e), 500), fs1)
                 | Inr ok \<Rightarrow> ((result, if truthy ok then 200 else 500), fs1)))"

text \<open>
  The view function \<open>analyze\<close> of \<open>POST /api/analyze\<close>, with the error handlers of the
  application applied to what it raises. The framework refuses a request longer than
  \<open>MAX_CONTENT_LENGTH\<close> with status 413 when \<open>request.files\<close> is first read, which is the
  first thing the function does. An exception outside the \<open>try\<close> block reaches the handler
  for status 500. The \<open>finally\<close> clause removes the upload when it exists.
\<close>

definition analyze :: "world \<Rightarrow> request \<Rightarrow> scratch \<Rightarrow> response \<times> scratch" where
  "analyze w req fs =
     (if MAX_CONTENT_LENGTH < content_length req then (file_too_large, fs)
      else
        (case files_video req of
           None \<Rightarrow> ((error_body ''No video file uploaded'', 400), fs)
         | Some video_file \<Rightarrow>
             if upload_filename video_file = []
             then ((error_body ''No file selected'', 400), fs)
             else
               (case allowed_file w (upload_filename video_file) of
                  Inl e \<Rightarrow> (internal_error, fs)
                | Inr ok \<Rightarrow>
                    if \<not> ok
                    then ((error_body
                             ''Unsupported file format. Please upload MP4, MOV, or AVI.'', 400), fs)
                    else
                      (let (resp, fs1) = save_and_run w req video_file fs;
                           video_path = upload_path w video_file
                       in (resp, if fs1 video_path \<noteq> None
                                 then fs1(video_path := None) else fs1)))))"

section \<open>A world for the examples\<close>

text \<open>
  The definitions of this section serve the examples only. \<open>nearest_hundredth x\<close> is
  what \<open>{x:.2f}\<close> denotes when \<open>x\<close> is not halfway between two hundredths, nor
  within the rounding error of a float of such a midpoint (there the binary float
  decides); the examples format \<open>120 / 7\<close> and \<open>30 / 10\<close>.
  The strings of the examples are strings of ASCII, on which the fields \<open>str_lower\<close>,
  \<open>str_title\<close> and \<open>str_strip\<close> are not consulted.
\<close>

text \<open>Rounding to the nearest hundredth, a tie going to the even neighbour.\<close>

definition nearest_hundredth :: "real \<Rightarrow> real" where
  "nearest_hundredth x =
     (let y = x * 100; f = \<lfloor>y\<rfloor>; r = y - of_int f
      in of_int (if r < 1 / 2 then f else if 1 / 2 < r then f + 1
                 else if even f then f else f + 1) / 100)"

text \<open>
  A thirty second video that exists, a tool that leaves two frames, and a model that
  answers. The examples below change one field at a time.
\<close>

definition example_world :: world where
  "example_world =
     \<lparr>str_lower = (\<lambda>s. s),
      str_title = (\<lambda>s. s),
      str_strip = (\<lambda>s. s),
      int_of_str = (\<lambda>s. None),
      format_2f = nearest_hundredth,
      path_str = (\<lambda>p. p),
      path_exists = (\<lambda>p. True),
      ffprobe = (\<lambda>p. Seconds 30),
      ffmpeg = (\<lambda>c. Completed 0 [] [''first'', ''second'']),
      standard_b64encode = (\<lambda>s. s),
      environ_api_key = Some ''key'',
      messages_create = (\<lambda>k c. Inr ''Solid unit turn.''),
      UPLOAD_FOLDER = ''/tmp/tennis_uploads'',
      uuid4_hex = ''0f'',
      secure_filename = (\<lambda>s. s),
      file_save = (\<lambda>p. Saved)\<rparr>"

definition example_request :: request where
  "example_request =
     \<lparr>content_length = 1000,
      files_video = Some \<lparr>upload_filename = ''clip.mp4'', upload_payload = ''bytes''\<rparr>,
      form = Map.empty\<rparr>"

section \<open>Properties\<close>

subsection \<open>Splitting at the last separator\<close>

lemma rsplit1_shape:
  "rsplit1 sep s =
     (if sep \<in> set s
      then [rev (tl (dropWhile (\<lambda>c. c \<noteq> sep) (rev s))),
            rev (takeWhile (\<lambda>c. c \<noteq> sep) (rev s))]
      else [s])"
proof (induction s)
  case Nil
  show ?case by simp
next
  case (Cons c cs)
  show ?case
  proof (cases "sep \<in> set cs")
    case True
    with Cons show ?thesis
      by (simp add: takeWhile_append dropWhile_append)
  next
    case False
    with Cons show ?thesis
      by (cases cs) (auto simp: takeWhile_append dropWhile_append)
  qed
qed

lemma allowed_file_value:
  "allowed_file w f =
     Inr (CHR ''.'' \<in> set f \<and> lower w (after_last_dot f) \<in> ALLOWED_EXTENSIONS)"
  by (simp add: allowed_file_def rsplit1_shape index1_def after_last_dot_def)

text \<open>
  Claim C10. The allow-list check is case-insensitive and requires a dot: for every file
  name, \<open>allowed_file\<close> returns (without raising) true exactly when the name contains a
  dot and the substring after its last dot, lower-cased, is one of mp4, mov, avi, mkv,
  m4v, webm. In particular \<open>CLIP.MP4\<close> is accepted and the dotless name \<open>video\<close> is
  rejected.
\<close>

theorem allowed_file_last_extension:
  "allowed_file w f =
     Inr (CHR ''.'' \<in> set f \<and>
          lower w (after_last_dot f)
            \<in> {''mp4'', ''mov'', ''avi'', ''mkv'', ''m4v'', ''webm''})
   \<and> allowed_file w ''CLIP.MP4'' = Inr True
   \<and> allowed_file w ''video'' = Inr False"
proof (intro conjI)
  show "allowed_file w f =
     Inr (CHR ''.'' \<in> set f \<and>
          lower w (after_last_dot f)
            \<in> {''mp4'', ''mov'', ''avi'', ''mkv'', ''m4v'', ''webm''})"
    by (simp add: allowed_file_value ALLOWED_EXTENSIONS_def)
  show "allowed_file w ''CLIP.MP4'' = Inr True"
    by (simp add: allowed_file_value after_last_dot_def lower_def isascii_def lower_char_def
        ALLOWED_EXTENSIONS_def)
  show "allowed_file w ''video'' = Inr False"
    by (simp add: allowed_file_def)
qed

subsection \<open>The content of the user message\<close>

lemma frame_blocks_length: "length (frame_blocks i fs) = 2 * length fs"
  by (induction fs arbitrary: i) simp_all

lemma frame_blocks_nth:
  "k < length fs \<Longrightarrow>
     frame_blocks i fs ! (2 * k) =
       Image_block \<lparr>source_type = ''base64'', media_type = ''image/jpeg'', data = fs ! k\<rparr>
     \<and> frame_blocks i fs ! (2 * k + 1) = Text_block (''[Frame '' @ str_nat (i + k + 1) @ '']'')"
proof (induction fs arbitrary: i k)
  case Nil
  then show ?case by simp
next
  case (Cons f fs)
  show ?case
  proof (cases k)
    case 0
    then show ?thesis by simp
  next
    case (Suc j)
    with Cons.prems have "j < length fs" by simp
    from Cons.IH [OF this, of "Suc i"] Suc show ?thesis by simp
  qed
qed

lemma general_fragment: "getitem STROKE_CONTEXT ''general'' = Inr STROKE_general"
  by (simp add: getitem_def STROKE_CONTEXT_def)

lemma build_user_prompt_eq:
  "build_user_prompt w n st si =
     Inr (prompt_template w (student_context si) n st
            (case STROKE_CONTEXT st of Some v \<Rightarrow> v | None \<Rightarrow> STROKE_general))"
  by (simp add: build_user_prompt_def general_fragment)

lemma message_content_eq:
  "message_content w frames st si =
     Inr (frame_blocks 0 frames @
          [Text_block (prompt_template w (student_context si) (length frames) st
            (case STROKE_CONTEXT st of Some v \<Rightarrow> v | None \<Rightarrow> STROKE_general))])"
  by (simp add: message_content_def build_user_prompt_eq)

text \<open>
  Claim C7. For a non-empty list of \<open>n\<close> frames, the content sent to the model has
  exactly \<open>2n + 1\<close> blocks: for every \<open>k\<close> from 1 to \<open>n\<close>, an image block holding
  frame \<open>k\<close> immediately followed by the text block \<open>[Frame k]\<close>, and then one last text
  block holding the user prompt. (Positions count from 0 below, so frame \<open>k + 1\<close> of the
  claim is \<open>frames ! k\<close>.)
\<close>

theorem message_content_layout:
  assumes "frames \<noteq> []"
  shows "\<exists>content prompt.
           message_content w frames st si = Inr content
         \<and> build_user_prompt w (length frames) st si = Inr prompt
         \<and> analyze_frames_with_claude w frames st si key =
             messages_create w (effective_key w key) content
         \<and> length content = 2 * length frames + 1
         \<and> (\<forall>k<length frames.
               content ! (2 * k) =
                 Image_block \<lparr>source_type = ''base64'', media_type = ''image/jpeg'',
                              data = frames ! k\<rparr>
             \<and> content ! (2 * k + 1) = Text_block (''[Frame '' @ str_nat (k + 1) @ '']''))
         \<and> content ! (2 * length frames) = Text_block prompt"
proof -
  define prompt where "prompt = prompt_template w (student_context si) (length frames) st
            (case STROKE_CONTEXT st of Some v \<Rightarrow> v | None \<Rightarrow> STROKE_general)"
  define content where "content = frame_blocks 0 frames @ [Text_block prompt]"
  have c: "message_content w frames st si = Inr content"
    by (simp add: message_content_eq content_def prompt_def)
  have p: "build_user_prompt w (length frames) st si = Inr prompt"
    by (simp add: build_user_prompt_eq prompt_def)
  have a: "analyze_frames_with_claude w frames st si key =
             messages_create w (effective_key w key) content"
    by (simp add: analyze_frames_with_claude_def c)
  have l: "length content = 2 * length frames + 1"
    by (simp add: content_def frame_blocks_length)
  have n: "content ! (2 * k) =
                 Image_block \<lparr>source_type = ''base64'', media_type = ''image/jpeg'',
                              data = frames ! k\<rparr>
             \<and> content ! (2 * k + 1) = Text_block (''[Frame '' @ str_nat (k + 1) @ '']'')"
    if "k < length frames" for k
    using frame_blocks_nth [OF that, of 0] that
    by (simp add: content_def nth_append frame_blocks_length)
  have t: "content ! (2 * length frames) = Text_block prompt"
    by (simp add: content_def nth_append frame_blocks_length)
  from c p a l n t show ?thesis by blast
qed

theorem message_content_layout_witness:
  "[''a'', ''b''] \<noteq> [] \<and>
   (\<exists>content prompt.
       message_content example_world [''a'', ''b''] ''serve'' None = Inr content
     \<and> build_user_prompt example_world (length [''a'', ''b'']) ''serve'' None = Inr prompt
     \<and> analyze_frames_with_claude example_world [''a'', ''b''] ''serve'' None None =
         messages_create example_world (effective_key example_world None) content
     \<and> length content = 2 * length [''a'', ''b''] + 1
     \<and> (\<forall>k<length [''a'', ''b''].
           content ! (2 * k) =
             Image_block \<lparr>source_type = ''base64'', media_type = ''image/jpeg'',
                          data = [''a'', ''b''] ! k\<rparr>
         \<and> content ! (2 * k + 1) = Text_block (''[Frame '' @ str_nat (k + 1) @ '']''))
     \<and> content ! (2 * length [''a'', ''b'']) = Text_block prompt)"
proof -
  have ne: "[''a'', ''b''] \<noteq> []" by simp
  from ne message_content_layout [OF ne, of example_world "''serve''" None None]
  show ?thesis by (rule conjI)
qed

subsection \<open>The result of the pipeline\<close>

lemma dom_failure_result: "dom (failure_result e) = {''success'', ''error'', ''analysis''}"
  by (auto simp: failure_result_def Let_def)

lemma failure_result_fields:
  "failure_result e ''success'' = Some (JBool False)"
  "failure_result e ''analysis'' = Some JNull"
  "\<exists>m. failure_result e ''error'' = Some (JStr m)"
  by (simp_all add: failure_result_def Let_def)

lemma failure_result_absent:
  "failure_result e ''frames_analyzed'' = None"
  "failure_result e ''stroke_type'' = None"
  "failure_result e ''student_name'' = None"
  by (simp_all add: failure_result_def Let_def)

lemma example_extract:
  "extract_frames example_world p FRAMES_TO_EXTRACT = Inr [''first'', ''second'']"
  by (simp add: extract_frames_def ffmpeg_command_def get_video_duration_def example_world_def
      FRAMES_TO_EXTRACT_def MAX_VIDEO_DURATION_def Let_def)

lemma example_claude:
  "analyze_frames_with_claude example_world frames st si key = Inr ''Solid unit turn.''"
  by (simp add: analyze_frames_with_claude_def message_content_eq example_world_def)

lemma example_run:
  "analyze_tennis_video example_world p st si key =
     [''success'' \<mapsto> JBool True,
      ''analysis'' \<mapsto> JStr ''Solid unit turn.'',
      ''frames_analyzed'' \<mapsto> JInt 2,
      ''stroke_type'' \<mapsto> JStr st,
      ''student_name'' \<mapsto> JStr (student_name si),
      ''error'' \<mapsto> JNull]"
  by (simp add: analyze_tennis_video_def example_extract example_claude)

text \<open>
  Claim C9. For every successful run of the pipeline in which no student name was supplied
  (\<open>student_info\<close> is \<open>None\<close>, or a dict without the key \<open>name\<close>), the field
  \<open>student_name\<close> of the result is the placeholder \<open>Student\<close>.
\<close>

theorem student_name_placeholder:
  assumes "analyze_tennis_video w p st si key ''success'' = Some (JBool True)"
    and "si = None \<or> (\<exists>d. si = Some d \<and> info_name d = None)"
  shows "analyze_tennis_video w p st si key ''student_name'' = Some (JStr ''Student'')"
proof -
  from assms(2) have n: "student_name si = ''Student''"
    by (auto simp: student_name_def)
  show ?thesis
  proof (cases "extract_frames w p FRAMES_TO_EXTRACT")
    case (Inl e)
    with assms(1) show ?thesis
      by (simp add: analyze_tennis_video_def failure_result_fields)
  next
    case (Inr frames)
    show ?thesis
    proof (cases "analyze_frames_with_claude w frames st si key")
      case (Inl e)
      with Inr assms(1) show ?thesis
        by (simp add: analyze_tennis_video_def failure_result_fields)
    next
      case (Inr analysis)
      with \<open>extract_frames w p FRAMES_TO_EXTRACT = Inr frames\<close> n show ?thesis
        by (simp add: analyze_tennis_video_def)
    qed
  qed
qed

theorem student_name_placeholder_witness:
  "analyze_tennis_video example_world ''clip.mp4'' ''forehand'' None None ''success''
     = Some (JBool True)
   \<and> analyze_tennis_video example_world ''clip.mp4'' ''forehand'' None None ''student_name''
     = Some (JStr ''Student'')
   \<and> analyze_tennis_video example_world ''clip.mp4'' ''forehand''
       (Some \<lparr>info_name = None, info_level = Some ''beginner'', info_age = None,
               info_concerns = None\<rparr>) None ''success''
     = Some (JBool True)
   \<and> analyze_tennis_video example_world ''clip.mp4'' ''forehand''
       (Some \<lparr>info_name = None, info_level = Some ''beginner'', info_age = None,
               info_concerns = None\<rparr>) None ''student_name''
     = Some (JStr ''Student'')"
proof -
  let ?d = "\<lparr>info_name = None, info_level = Some ''beginner'', info_age = None,
               info_concerns = None\<rparr>"
  have s1: "analyze_tennis_video example_world ''clip.mp4'' ''forehand'' None None ''success''
     = Some (JBool True)"
    by (simp add: example_run)
  have s2: "analyze_tennis_video example_world ''clip.mp4'' ''forehand'' (Some ?d) None ''success''
     = Some (JBool True)"
    by (simp add: example_run)
  have h1: "(None :: student_info option) = None \<or> (\<exists>d. None = Some d \<and> info_name d = None)"
    by simp
  have h2: "Some ?d = None \<or> (\<exists>d. Some ?d = Some d \<and> info_name d = None)"
    by simp
  from s1 s2 student_name_placeholder [OF s1 h1] student_name_placeholder [OF s2 h2]
  show ?thesis by blast
qed

text \<open>
  Claim C1 says that every result of \<open>analyze_tennis_video\<close> has the six keys \<open>success\<close>,
  \<open>analysis\<close>, \<open>frames_analyzed\<close>, \<open>stroke_type\<close>, \<open>student_name\<close> and \<open>error\<close>, as the
  docstring of the function lists them. The code at a video file that is missing: the
  result has the three keys \<open>success\<close>, \<open>error\<close> and \<open>analysis\<close> only.
\<close>

theorem missing_file_result_keys:
  "dom (analyze_tennis_video (example_world\<lparr>path_exists := \<lambda>p. False\<rparr>)
          ''clip.mp4'' ''general'' None None) = {''success'', ''error'', ''analysis''}
   \<and> ''frames_analyzed'' \<notin>
       dom (analyze_tennis_video (example_world\<lparr>path_exists := \<lambda>p. False\<rparr>)
              ''clip.mp4'' ''general'' None None)
   \<and> analyze_tennis_video (example_world\<lparr>path_exists := \<lambda>p. False\<rparr>)
         ''clip.mp4'' ''general'' None None ''error''
       = Some (JStr ''Video file not found: Video not found: clip.mp4'')"
proof -
  have r: "analyze_tennis_video (example_world\<lparr>path_exists := \<lambda>p. False\<rparr>)
             ''clip.mp4'' ''general'' None None
           = failure_result (FileNotFoundError ''Video not found: clip.mp4'')"
    by (simp add: analyze_tennis_video_def extract_frames_def ffmpeg_command_def
        example_world_def Let_def)
  show ?thesis
    unfolding r
    by (simp add: dom_failure_result) (simp add: failure_result_def)
qed

text \<open>
  The part of claim C1 that the code keeps on every path: \<open>success\<close> is true with
  \<open>analysis\<close> a text and \<open>error\<close> null, or false with \<open>analysis\<close> null and \<open>error\<close> a
  text.
\<close>

lemma success_analysis_error:
  "(analyze_tennis_video w p st si key ''success'' = Some (JBool True)
    \<and> (\<exists>a. analyze_tennis_video w p st si key ''analysis'' = Some (JStr a))
    \<and> analyze_tennis_video w p st si key ''error'' = Some JNull)
   \<or> (analyze_tennis_video w p st si key ''success'' = Some (JBool False)
    \<and> analyze_tennis_video w p st si key ''analysis'' = Some JNull
    \<and> (\<exists>m. analyze_tennis_video w p st si key ''error'' = Some (JStr m)))"
proof (cases "extract_frames w p FRAMES_TO_EXTRACT")
  case (Inl e)
  then show ?thesis
    by (simp add: analyze_tennis_video_def failure_result_fields)
next
  case (Inr frames)
  then show ?thesis
    by (cases "analyze_frames_with_claude w frames st si key")
       (simp_all add: analyze_tennis_video_def failure_result_fields)
qed

subsection \<open>Stroke types outside the lookup\<close>

lemma STROKE_CONTEXT_unknown:
  "st \<notin> {''forehand'', ''backhand_one_handed'', ''backhand_two_handed'', ''serve'',
           ''volley'', ''general''} \<Longrightarrow> STROKE_CONTEXT st = None"
  by (simp add: STROKE_CONTEXT_def)

lemma success_stroke_type:
  assumes "analyze_tennis_video w p st si key ''success'' = Some (JBool True)"
  shows "analyze_tennis_video w p st si key ''stroke_type'' = Some (JStr st)"
proof (cases "extract_frames w p FRAMES_TO_EXTRACT")
  case (Inl e)
  with assms show ?thesis
    by (simp add: analyze_tennis_video_def failure_result_fields)
next
  case (Inr frames)
  show ?thesis
  proof (cases "analyze_frames_with_claude w frames st si key")
    case (Inl e)
    with Inr assms show ?thesis
      by (simp add: analyze_tennis_video_def failure_result_fields)
  next
    case (Inr analysis)
    with \<open>extract_frames w p FRAMES_TO_EXTRACT = Inr frames\<close> show ?thesis
      by (simp add: analyze_tennis_video_def)
  qed
qed

lemma title_lob:
  "title w (replace_char (CHR ''_'') (CHR '' '') ''lob'') = ''Lob''"
  by (simp add: title_def isascii_def replace_char_def islower_def isupper_def
      upper_char_def lower_char_def)

lemma title_general:
  "title w (replace_char (CHR ''_'') (CHR '' '') ''general'') = ''General''"
  by (simp add: title_def isascii_def replace_char_def islower_def isupper_def
      upper_char_def lower_char_def)

lemma prompt_lob_general:
  "prompt_template w c n ''lob'' x \<noteq> prompt_template w c n ''general'' y"
  by (simp add: prompt_template_def title_lob title_general)

text \<open>
  Claim C2 says that a stroke type outside the six keys of \<open>STROKE_CONTEXT\<close> behaves as
  \<open>general\<close> does, in the prompt and in the response. For \<open>lob\<close> neither is so: the prompt
  names the stroke type given (\<open>Stroke type: Lob\<close>, not \<open>Stroke type: General\<close>), and the
  result carries it in \<open>stroke_type\<close>.
\<close>

theorem unknown_stroke_counterexample:
  "''lob'' \<notin> {''forehand'', ''backhand_one_handed'', ''backhand_two_handed'', ''serve'',
               ''volley'', ''general''}
   \<and> build_user_prompt example_world 10 ''lob'' None
       \<noteq> build_user_prompt example_world 10 ''general'' None
   \<and> analyze_tennis_video example_world ''clip.mp4'' ''lob'' None None ''stroke_type''
       \<noteq> analyze_tennis_video example_world ''clip.mp4'' ''general'' None None ''stroke_type''"
proof (intro conjI)
  show "''lob'' \<notin> {''forehand'', ''backhand_one_handed'', ''backhand_two_handed'', ''serve'',
               ''volley'', ''general''}"
    by simp
  show "build_user_prompt example_world 10 ''lob'' None
       \<noteq> build_user_prompt example_world 10 ''general'' None"
    by (simp only: build_user_prompt_eq sum.inject prompt_lob_general not_False_eq_True)
  show "analyze_tennis_video example_world ''clip.mp4'' ''lob'' None None ''stroke_type''
       \<noteq> analyze_tennis_video example_world ''clip.mp4'' ''general'' None None ''stroke_type''"
    by (simp add: example_run)
qed

text \<open>
  Claim C2, amended. For every stroke type outside the six keys, the instruction fragment
  placed in the prompt is the one of \<open>general\<close>: the prompt is the template filled with the
  same profile block, frame count and fragment as for \<open>general\<close>, and differs from the
  prompt for \<open>general\<close> only in its \<open>Stroke type:\<close> line, which shows the stroke type given
  (underscores replaced by spaces, then title-cased). The content sent to the model is the
  frame blocks followed by that prompt, and a successful result carries the stroke type
  given, not \<open>general\<close>, in its field \<open>stroke_type\<close>.
\<close>

theorem unknown_stroke_general_fragment:
  assumes "st \<notin> {''forehand'', ''backhand_one_handed'', ''backhand_two_handed'', ''serve'',
                   ''volley'', ''general''}"
  shows "build_user_prompt w n st si =
           Inr (prompt_template w (student_context si) n st STROKE_general)
       \<and> build_user_prompt w n ''general'' si =
           Inr (prompt_template w (student_context si) n ''general'' STROKE_general)
       \<and> message_content w frames st si =
           Inr (frame_blocks 0 frames @
                [Text_block (prompt_template w (student_context si) (length frames) st
                               STROKE_general)])
       \<and> (analyze_tennis_video w p st si key ''success'' = Some (JBool True) \<longrightarrow>
            analyze_tennis_video w p st si key ''stroke_type'' = Some (JStr st))"
proof (intro conjI impI)
  from assms have u: "STROKE_CONTEXT st = None" by (rule STROKE_CONTEXT_unknown)
  have g: "STROKE_CONTEXT ''general'' = Some STROKE_general"
    by (simp add: STROKE_CONTEXT_def)
  show "build_user_prompt w n st si =
           Inr (prompt_template w (student_context si) n st STROKE_general)"
    by (simp add: build_user_prompt_eq u)
  show "build_user_prompt w n ''general'' si =
           Inr (prompt_template w (student_context si) n ''general'' STROKE_general)"
    by (simp add: build_user_prompt_eq g)
  show "message_content w frames st si =
           Inr (frame_blocks 0 frames @
                [Text_block (prompt_template w (student_context si) (length frames) st
                               STROKE_general)])"
    by (simp add: message_content_eq u)
next
  assume "analyze_tennis_video w p st si key ''success'' = Some (JBool True)"
  then show "analyze_tennis_video w p st si key ''stroke_type'' = Some (JStr st)"
    by (rule success_stroke_type)
qed

theorem unknown_stroke_general_fragment_witness:
  "''lob'' \<notin> {''forehand'', ''backhand_one_handed'', ''backhand_two_handed'', ''serve'',
               ''volley'', ''general''}
   \<and> build_user_prompt example_world 2 ''lob'' None =
       Inr (prompt_template example_world (student_context None) 2 ''lob'' STROKE_general)
   \<and> build_user_prompt example_world 2 ''general'' None =
       Inr (prompt_template example_world (student_context None) 2 ''general'' STROKE_general)
   \<and> message_content example_world [''first'', ''second''] ''lob'' None =
       Inr (frame_blocks 0 [''first'', ''second''] @
            [Text_block (prompt_template example_world (student_context None)
                           (length [''first'', ''second'']) ''lob'' STROKE_general)])
   \<and> analyze_tennis_video example_world ''clip.mp4'' ''lob'' None None ''success''
       = Some (JBool True)
   \<and> analyze_tennis_video example_world ''clip.mp4'' ''lob'' None None ''stroke_type''
       = Some (JStr ''lob'')"
proof -
  have h: "''lob'' \<notin> {''forehand'', ''backhand_one_handed'', ''backhand_two_handed'', ''serve'',
               ''volley'', ''general''}"
    by simp
  have s: "analyze_tennis_video example_world ''clip.mp4'' ''lob'' None None ''success''
       = Some (JBool True)"
    by (simp add: example_run)
  note t = unknown_stroke_general_fragment
             [OF h, where w = example_world and n = 2 and si = None
                and frames = "[''first'', ''second'']" and p = "''clip.mp4''" and key = None]
  from t have 1: "build_user_prompt example_world 2 ''lob'' None =
       Inr (prompt_template example_world (student_context None) 2 ''lob'' STROKE_general)"
    by (rule conjunct1)
  from t have 2: "build_user_prompt example_world 2 ''general'' None =
       Inr (prompt_template example_world (student_context None) 2 ''general'' STROKE_general)"
    by (rule conjunct2 [THEN conjunct1])
  from t have 3: "message_content example_world [''first'', ''second''] ''lob'' None =
       Inr (frame_blocks 0 [''first'', ''second''] @
            [Text_block (prompt_template example_world (student_context None)
                           (length [''first'', ''second'']) ''lob'' STROKE_general)])"
    by (rule conjunct2 [THEN conjunct2, THEN conjunct1])
  from t s have 4: "analyze_tennis_video example_world ''clip.mp4'' ''lob'' None None ''stroke_type''
       = Some (JStr ''lob'')"
    by (rule conjunct2 [THEN conjunct2, THEN conjunct2, THEN mp])
  from h 1 2 3 s 4 show ?thesis by (intro conjI)
qed

subsection \<open>Failures of frame extraction\<close>

lemmas pipeline_eval =
  analyze_tennis_video_def extract_frames_def ffmpeg_command_def get_video_duration_def
  failure_result_def Let_def

text \<open>
  Claim C3 says that a failure to probe the duration yields a processing error, as a
  failure of \<open>ffmpeg\<close> does. The code at a file that exists and that \<open>ffprobe\<close> cannot
  read, so that it prints JSON without a \<open>format\<close> entry: \<open>get_video_duration\<close> does not
  look at the exit status and raises \<open>KeyError\<close>, which only the last \<open>except\<close> clause
  catches, and the message is \<open>Unexpected error: 'format'\<close>. On the same file a failing
  \<open>ffmpeg\<close>, whose exit status \<open>extract_frames\<close> checks, gives a \<open>Processing error\<close>.
\<close>

theorem probe_failure_unexpected_error:
  "analyze_tennis_video
     (example_world\<lparr>ffprobe := \<lambda>p. No_duration ([CHR 0x27] @ ''format'' @ [CHR 0x27])\<rparr>)
     ''clip.mp4'' ''general'' None None
     = [''success'' \<mapsto> JBool False,
        ''error'' \<mapsto> JStr (''Unexpected error: '' @ [CHR 0x27] @ ''format'' @ [CHR 0x27]),
        ''analysis'' \<mapsto> JNull]
   \<and> take 16 (''Unexpected error: '' @ [CHR 0x27] @ ''format'' @ [CHR 0x27])
     \<noteq> ''Processing error''
   \<and> analyze_tennis_video
       (example_world\<lparr>ffmpeg := \<lambda>c. Completed 1 ''Invalid data'' []\<rparr>)
       ''clip.mp4'' ''general'' None None
     = [''success'' \<mapsto> JBool False,
        ''error'' \<mapsto> JStr ''Processing error: FFmpeg failed: Invalid data'',
        ''analysis'' \<mapsto> JNull]"
  by (simp add: pipeline_eval example_world_def FRAMES_TO_EXTRACT_def MAX_VIDEO_DURATION_def)

text \<open>
  The three categories of claim C3 that the code has: a missing source path gives the
  not-found message, a non-zero exit of \<open>ffmpeg\<close> and a run that leaves no frame give a
  processing error.
\<close>

lemma extraction_failure_messages:
  "(\<not> path_exists w (path_str w p) \<longrightarrow>
      analyze_tennis_video w p st si key =
        [''success'' \<mapsto> JBool False,
         ''error'' \<mapsto> JStr (''Video file not found: Video not found: '' @ path_str w p),
         ''analysis'' \<mapsto> JNull])
   \<and> (ffmpeg_command w p FRAMES_TO_EXTRACT = Inr c \<and> ffmpeg w c = Completed rc err files
        \<and> rc \<noteq> 0 \<longrightarrow>
      analyze_tennis_video w p st si key =
        [''success'' \<mapsto> JBool False,
         ''error'' \<mapsto> JStr (''Processing error: FFmpeg failed: '' @ err),
         ''analysis'' \<mapsto> JNull])
   \<and> (ffmpeg_command w p FRAMES_TO_EXTRACT = Inr c \<and> ffmpeg w c = Completed 0 err [] \<longrightarrow>
      analyze_tennis_video w p st si key =
        [''success'' \<mapsto> JBool False,
         ''error'' \<mapsto> JStr (''Processing error: No frames were extracted. Check video format.''),
         ''analysis'' \<mapsto> JNull])"
proof (intro conjI impI)
  assume "\<not> path_exists w (path_str w p)"
  then show "analyze_tennis_video w p st si key =
        [''success'' \<mapsto> JBool False,
         ''error'' \<mapsto> JStr (''Video file not found: Video not found: '' @ path_str w p),
         ''analysis'' \<mapsto> JNull]"
    by (simp add: pipeline_eval)
next
  assume "ffmpeg_command w p FRAMES_TO_EXTRACT = Inr c \<and> ffmpeg w c = Completed rc err files
        \<and> rc \<noteq> 0"
  then show "analyze_tennis_video w p st si key =
        [''success'' \<mapsto> JBool False,
         ''error'' \<mapsto> JStr (''Processing error: FFmpeg failed: '' @ err),
         ''analysis'' \<mapsto> JNull]"
    by (simp add: analyze_tennis_video_def extract_frames_def failure_result_def)
next
  assume "ffmpeg_command w p FRAMES_TO_EXTRACT = Inr c \<and> ffmpeg w c = Completed 0 err []"
  then show "analyze_tennis_video w p st si key =
        [''success'' \<mapsto> JBool False,
         ''error'' \<mapsto> JStr (''Processing error: No frames were extracted. Check video format.''),
         ''analysis'' \<mapsto> JNull]"
    by (simp add: analyze_tennis_video_def extract_frames_def failure_result_def)
qed

subsection \<open>The sampling interval of a long video\<close>




subsection \<open>The upload handler\<close>

lemma success_field:
  "analyze_tennis_video w p st si key ''success'' = Some (JBool True)
   \<or> analyze_tennis_video w p st si key ''success'' = Some (JBool False)"
proof (cases "extract_frames w p FRAMES_TO_EXTRACT")
  case (Inl e)
  then show ?thesis
    by (simp add: analyze_tennis_video_def failure_result_fields)
next
  case (Inr frames)
  then show ?thesis
    by (cases "analyze_frames_with_claude w frames st si key")
       (simp_all add: analyze_tennis_video_def failure_result_fields)
qed

lemma run_pipeline_success:
  "run_pipeline w req v ''success'' = Some (JBool True)
   \<or> run_pipeline w req v ''success'' = Some (JBool False)"
  by (simp add: run_pipeline_def Let_def success_field)


lemma save_and_run_scratch:
  "snd (save_and_run w req v fs) =
     (case file_save w (upload_path w v) of
        Save_raised e left \<Rightarrow>
          (case left of None \<Rightarrow> fs | Some partial \<Rightarrow> fs(upload_path w v \<mapsto> partial))
      | Saved \<Rightarrow> fs(upload_path w v \<mapsto> upload_payload v))"
  using run_pipeline_success [of w req v]
  by (auto simp: save_and_run_def Let_def getitem_def split: save_result.splits)

lemma analyze_valid:
  assumes "content_length req \<le> MAX_CONTENT_LENGTH"
    and "files_video req = Some v"
    and "upload_filename v \<noteq> []"
    and "CHR ''.'' \<in> set (upload_filename v)
         \<and> lower w (after_last_dot (upload_filename v)) \<in> ALLOWED_EXTENSIONS"
  shows "analyze w req fs =
           (fst (save_and_run w req v fs),
            (snd (save_and_run w req v fs))(upload_path w v := None))"
  using assms
  by (auto simp: analyze_def allowed_file_value Let_def split_beta)

lemma analyze_invalid:
  assumes "content_length req \<le> MAX_CONTENT_LENGTH"
  shows "files_video req = None \<Longrightarrow>
           analyze w req fs = ((error_body ''No video file uploaded'', 400), fs)"
    and "files_video req = Some v \<Longrightarrow> upload_filename v = [] \<Longrightarrow>
           analyze w req fs = ((error_body ''No file selected'', 400), fs)"
    and "files_video req = Some v \<Longrightarrow> upload_filename v \<noteq> [] \<Longrightarrow>
         \<not> (CHR ''.'' \<in> set (upload_filename v)
            \<and> lower w (after_last_dot (upload_filename v)) \<in> ALLOWED_EXTENSIONS) \<Longrightarrow>
           analyze w req fs =
             ((error_body ''Unsupported file format. Please upload MP4, MOV, or AVI.'', 400), fs)"
  using assms
  by (auto simp: analyze_def allowed_file_value)

lemma lower_mp4: "lower w ''mp4'' = ''mp4''"
  by (simp add: lower_def isascii_def lower_char_def)

lemma lower_txt: "lower w ''txt'' = ''txt''"
  by (simp add: lower_def isascii_def lower_char_def)

lemma example_request_valid:
  "content_length example_request \<le> MAX_CONTENT_LENGTH"
  "files_video example_request =
     Some \<lparr>upload_filename = ''clip.mp4'', upload_payload = ''bytes''\<rparr>"
  "upload_filename \<lparr>upload_filename = ''clip.mp4'', upload_payload = ''bytes''\<rparr> \<noteq> []"
  by (simp_all add: example_request_def MAX_CONTENT_LENGTH_def)

lemma example_extension_valid:
  "CHR ''.'' \<in> set (upload_filename
                        \<lparr>upload_filename = ''clip.mp4'', upload_payload = ''bytes''\<rparr>)
   \<and> lower w (after_last_dot
          (upload_filename \<lparr>upload_filename = ''clip.mp4'', upload_payload = ''bytes''\<rparr>))
       \<in> ALLOWED_EXTENSIONS"
  by (simp add: after_last_dot_def lower_mp4 ALLOWED_EXTENSIONS_def)


text \<open>
  Claim C4 says that every request that fails one of the three checks is answered with
  status 400. A request beyond the size limit that has no \<open>video\<close> field fails the first
  check and is answered with 413: the size is checked when \<open>request.files\<close> is first read.
\<close>

theorem oversized_request_counterexample:
  "files_video (example_request\<lparr>content_length := 600 * 1024 * 1024, files_video := None\<rparr>)
     = None
   \<and> snd (fst (analyze example_world
                 (example_request\<lparr>content_length := 600 * 1024 * 1024, files_video := None\<rparr>)
                 Map.empty)) = 413"
  by (simp add: analyze_def file_too_large_def MAX_CONTENT_LENGTH_def)

text \<open>
  Claim C4, amended. For a request within the size limit, the handler checks in this order
  that the \<open>video\<close> field is present, that its file name is not empty, and that the
  extension is one of mp4, mov, avi, mkv, m4v, webm. Such a request that fails a check is
  answered with status 400 and the message of the first check it fails; a request beyond
  the size limit is answered with status 413, whatever its fields. In all four cases
  scratch storage is what it was: nothing is written.
\<close>

theorem validation_rejects_before_write:
  "(content_length req \<le> MAX_CONTENT_LENGTH \<and> files_video req = None \<longrightarrow>
      analyze w req fs = ((error_body ''No video file uploaded'', 400), fs))
   \<and> (content_length req \<le> MAX_CONTENT_LENGTH
        \<and> files_video req = Some v \<and> upload_filename v = [] \<longrightarrow>
      analyze w req fs = ((error_body ''No file selected'', 400), fs))
   \<and> (content_length req \<le> MAX_CONTENT_LENGTH
        \<and> files_video req = Some v \<and> upload_filename v \<noteq> []
        \<and> \<not> (CHR ''.'' \<in> set (upload_filename v)
               \<and> lower w (after_last_dot (upload_filename v))
                   \<in> {''mp4'', ''mov'', ''avi'', ''mkv'', ''m4v'', ''webm''}) \<longrightarrow>
      analyze w req fs =
        ((error_body ''Unsupported file format. Please upload MP4, MOV, or AVI.'', 400), fs))
   \<and> (MAX_CONTENT_LENGTH < content_length req \<longrightarrow>
      analyze w req fs =
        ((error_body ''Video file is too large. Please keep it under 500MB.'', 413), fs))"
proof (intro conjI impI)
  assume "content_length req \<le> MAX_CONTENT_LENGTH \<and> files_video req = None"
  then show "analyze w req fs = ((error_body ''No video file uploaded'', 400), fs)"
    by (simp add: analyze_invalid(1))
next
  assume "content_length req \<le> MAX_CONTENT_LENGTH
        \<and> files_video req = Some v \<and> upload_filename v = []"
  then show "analyze w req fs = ((error_body ''No file selected'', 400), fs)"
    by (simp add: analyze_invalid(2))
next
  assume "content_length req \<le> MAX_CONTENT_LENGTH
        \<and> files_video req = Some v \<and> upload_filename v \<noteq> []
        \<and> \<not> (CHR ''.'' \<in> set (upload_filename v)
               \<and> lower w (after_last_dot (upload_filename v))
                   \<in> {''mp4'', ''mov'', ''avi'', ''mkv'', ''m4v'', ''webm''})"
  then have "content_length req \<le> MAX_CONTENT_LENGTH" and "files_video req = Some v"
    and "upload_filename v \<noteq> []"
    and "\<not> (CHR ''.'' \<in> set (upload_filename v)
            \<and> lower w (after_last_dot (upload_filename v)) \<in> ALLOWED_EXTENSIONS)"
    by (simp_all add: ALLOWED_EXTENSIONS_def)
  then show "analyze w req fs =
        ((error_body ''Unsupported file format. Please upload MP4, MOV, or AVI.'', 400), fs)"
    by (rule analyze_invalid(3))
next
  assume "MAX_CONTENT_LENGTH < content_length req"
  then show "analyze w req fs =
        ((error_body ''Video file is too large. Please keep it under 500MB.'', 413), fs)"
    by (simp add: analyze_def file_too_large_def)
qed

theorem validation_rejects_before_write_witness:
  "analyze example_world (example_request\<lparr>files_video := None\<rparr>) [''old.mp4'' \<mapsto> ''x''] =
     ((error_body ''No video file uploaded'', 400), [''old.mp4'' \<mapsto> ''x''])
   \<and> analyze example_world
       (example_request\<lparr>files_video :=
          Some \<lparr>upload_filename = [], upload_payload = ''bytes''\<rparr>\<rparr>) [''old.mp4'' \<mapsto> ''x''] =
     ((error_body ''No file selected'', 400), [''old.mp4'' \<mapsto> ''x''])
   \<and> analyze example_world
       (example_request\<lparr>files_video :=
          Some \<lparr>upload_filename = ''clip.txt'', upload_payload = ''bytes''\<rparr>\<rparr>)
       [''old.mp4'' \<mapsto> ''x''] =
     ((error_body ''Unsupported file format. Please upload MP4, MOV, or AVI.'', 400),
      [''old.mp4'' \<mapsto> ''x''])
   \<and> analyze example_world
       (example_request\<lparr>content_length := 600 * 1024 * 1024, files_video := None\<rparr>)
       [''old.mp4'' \<mapsto> ''x''] =
     ((error_body ''Video file is too large. Please keep it under 500MB.'', 413),
      [''old.mp4'' \<mapsto> ''x''])"
proof (intro conjI)
  let ?fs = "[''old.mp4'' \<mapsto> ''x'']"
  let ?r1 = "example_request\<lparr>files_video := None\<rparr>"
  have h1: "content_length ?r1 \<le> MAX_CONTENT_LENGTH \<and> files_video ?r1 = None"
    by (simp add: example_request_def MAX_CONTENT_LENGTH_def)
  show "analyze example_world ?r1 ?fs = ((error_body ''No video file uploaded'', 400), ?fs)"
    by (rule validation_rejects_before_write [THEN conjunct1, THEN mp, OF h1])
next
  let ?fs = "[''old.mp4'' \<mapsto> ''x'']"
  let ?v = "\<lparr>upload_filename = [], upload_payload = ''bytes''\<rparr>"
  let ?r2 = "example_request\<lparr>files_video := Some ?v\<rparr>"
  have h2: "content_length ?r2 \<le> MAX_CONTENT_LENGTH
            \<and> files_video ?r2 = Some ?v \<and> upload_filename ?v = []"
    by (simp add: example_request_def MAX_CONTENT_LENGTH_def)
  show "analyze example_world ?r2 ?fs = ((error_body ''No file selected'', 400), ?fs)"
    by (rule validation_rejects_before_write
          [THEN conjunct2, THEN conjunct1, THEN mp, OF h2])
next
  let ?fs = "[''old.mp4'' \<mapsto> ''x'']"
  let ?v = "\<lparr>upload_filename = ''clip.txt'', upload_payload = ''bytes''\<rparr>"
  let ?r3 = "example_request\<lparr>files_video := Some ?v\<rparr>"
  have h3: "content_length ?r3 \<le> MAX_CONTENT_LENGTH
            \<and> files_video ?r3 = Some ?v \<and> upload_filename ?v \<noteq> []
            \<and> \<not> (CHR ''.'' \<in> set (upload_filename ?v)
                   \<and> lower example_world (after_last_dot (upload_filename ?v))
                       \<in> {''mp4'', ''mov'', ''avi'', ''mkv'', ''m4v'', ''webm''})"
    by (simp add: example_request_def MAX_CONTENT_LENGTH_def after_last_dot_def lower_txt)
  show "analyze example_world ?r3 ?fs =
     ((error_body ''Unsupported file format. Please upload MP4, MOV, or AVI.'', 400), ?fs)"
    by (rule validation_rejects_before_write
          [THEN conjunct2, THEN conjunct2, THEN conjunct1, THEN mp, OF h3])
next
  let ?fs = "[''old.mp4'' \<mapsto> ''x'']"
  let ?r4 = "example_request\<lparr>content_length := 600 * 1024 * 1024, files_video := None\<rparr>"
  have h4: "MAX_CONTENT_LENGTH < content_length ?r4"
    by (simp add: MAX_CONTENT_LENGTH_def)
  show "analyze example_world ?r4 ?fs =
     ((error_body ''Video file is too large. Please keep it under 500MB.'', 413), ?fs)"
    by (rule validation_rejects_before_write
          [THEN conjunct2, THEN conjunct2, THEN conjunct2, THEN mp, OF h4])
qed

text \<open>
  Claim C6. For every request that reaches the step that saves the file, the upload is
  absent from scratch storage when the handler returns, in every world: whether the save
  succeeds or raises (leaving a partial file or none), and whether the pipeline succeeds
  or fails. Every other file of scratch storage is as it was.
\<close>

theorem upload_removed_on_every_path:
  assumes "content_length req \<le> MAX_CONTENT_LENGTH"
    and "files_video req = Some v"
    and "upload_filename v \<noteq> []"
    and "CHR ''.'' \<in> set (upload_filename v)
         \<and> lower w (after_last_dot (upload_filename v)) \<in> ALLOWED_EXTENSIONS"
  shows "snd (analyze w req fs) (upload_path w v) = None
       \<and> snd (analyze w req fs) = fs(upload_path w v := None)"
proof -
  have "snd (analyze w req fs) = (snd (save_and_run w req v fs))(upload_path w v := None)"
    by (simp add: analyze_valid [OF assms])
  also have "\<dots> = fs(upload_path w v := None)"
    by (simp add: save_and_run_scratch split: save_result.splits option.splits)
  finally show ?thesis by simp
qed

theorem upload_removed_on_every_path_witness:
  "snd (analyze example_world example_request [''old.mp4'' \<mapsto> ''x''])
       ''/tmp/tennis_uploads/0f_clip.mp4'' = None
   \<and> snd (analyze (example_world\<lparr>messages_create := \<lambda>k c. Inl (APIError ''overloaded'')\<rparr>)
            example_request [''old.mp4'' \<mapsto> ''x''])
       ''/tmp/tennis_uploads/0f_clip.mp4'' = None
   \<and> snd (analyze
            (example_world\<lparr>file_save :=
               \<lambda>p. Save_raised (OtherException ''No space left on device'') (Some ''by'')\<rparr>)
            example_request [''old.mp4'' \<mapsto> ''x''])
       ''/tmp/tennis_uploads/0f_clip.mp4'' = None"
proof (intro conjI)
  let ?v = "\<lparr>upload_filename = ''clip.mp4'', upload_payload = ''bytes''\<rparr>"
  have p: "upload_path example_world ?v = ''/tmp/tennis_uploads/0f_clip.mp4''"
    by (simp add: upload_path_def example_world_def)
  from upload_removed_on_every_path
         [OF example_request_valid example_extension_valid [of example_world], THEN conjunct1]
  show "snd (analyze example_world example_request [''old.mp4'' \<mapsto> ''x''])
       ''/tmp/tennis_uploads/0f_clip.mp4'' = None"
    by (simp only: p)
next
  let ?v = "\<lparr>upload_filename = ''clip.mp4'', upload_payload = ''bytes''\<rparr>"
  let ?w = "example_world\<lparr>messages_create := \<lambda>k c. Inl (APIError ''overloaded'')\<rparr>"
  have p: "upload_path ?w ?v = ''/tmp/tennis_uploads/0f_clip.mp4''"
    by (simp add: upload_path_def example_world_def)
  from upload_removed_on_every_path
         [OF example_request_valid example_extension_valid [of ?w], THEN conjunct1]
  show "snd (analyze ?w example_request [''old.mp4'' \<mapsto> ''x''])
       ''/tmp/tennis_uploads/0f_clip.mp4'' = None"
    by (simp only: p)
next
  let ?v = "\<lparr>upload_filename = ''clip.mp4'', upload_payload = ''bytes''\<rparr>"
  let ?w = "example_world\<lparr>file_save :=
               \<lambda>p. Save_raised (OtherException ''No space left on device'') (Some ''by'')\<rparr>"
  have p: "upload_path ?w ?v = ''/tmp/tennis_uploads/0f_clip.mp4''"
    by (simp add: upload_path_def example_world_def)
  from upload_removed_on_every_path
         [OF example_request_valid example_extension_valid [of ?w], THEN conjunct1]
  show "snd (analyze ?w example_request [''old.mp4'' \<mapsto> ''x''])
       ''/tmp/tennis_uploads/0f_clip.mp4'' = None"
    by (simp only: p)
qed



end
